theory Spec2Isabelle
  imports Complex_Main
begin

section \<open>Door accessibility check of \<open>tools/checker_doors.py\<close>\<close>

subsection \<open>Python values the check reads and prints\<close>

text \<open>
  The check compares an element's width with the threshold (\<open>width >= min_width_mm\<close>)
  and prints both (\<open>str(width)\<close>, and the f-string fields \<open>{width}\<close>,
  \<open>{min_width_mm}\<close>, which for \<open>int\<close> and \<open>float\<close> give the same text as \<open>str\<close>).
  A number is a Python \<open>int\<close> (unbounded) or a \<open>float\<close>. A finite float is given by its
  exact value, a rational; the zero with the sign bit set, the infinities and the
  not-a-number are values of their own.
\<close>

datatype pyfloat = Finite rat | NegZero | PosInf | NegInf | NaN

datatype pynum = PyInt int | PyFloat pyfloat

fun float_val :: "pyfloat \<Rightarrow> rat" where
  "float_val (Finite r) = r"
| "float_val NegZero = 0"
| "float_val PosInf = 0"
| "float_val NegInf = 0"
| "float_val NaN = 0"

text \<open>
  \<open>x >= y\<close> on floats: false when either side is not-a-number, the infinities are the
  ends of the order, and the two zeros are equal.
\<close>

fun float_ge :: "pyfloat \<Rightarrow> pyfloat \<Rightarrow> bool" where
  "float_ge NaN y = False"
| "float_ge x NaN = False"
| "float_ge PosInf y = True"
| "float_ge x NegInf = True"
| "float_ge NegInf y = False"
| "float_ge x PosInf = False"
| "float_ge x y = (float_val y \<le> float_val x)"

text \<open>
  \<open>x >= y\<close> on numbers. Python compares an \<open>int\<close> with a \<open>float\<close> by their exact
  values, without rounding the \<open>int\<close>.
\<close>

fun py_ge :: "pynum \<Rightarrow> pynum \<Rightarrow> bool" where
  "py_ge (PyInt a) (PyInt b) = (b \<le> a)"
| "py_ge (PyInt a) (PyFloat y) = float_ge (Finite (of_int a)) y"
| "py_ge (PyFloat x) (PyInt b) = float_ge x (Finite (of_int b))"
| "py_ge (PyFloat x) (PyFloat y) = float_ge x y"

text \<open>Decimal digits of a natural number, most significant first.\<close>

definition digit_char :: "nat \<Rightarrow> char" where
  "digit_char d = ''0123456789'' ! d"

fun digits_of :: "nat \<Rightarrow> string" where
  "digits_of n = (if n < 10 then [digit_char n]
                  else digits_of (n div 10) @ [digit_char (n mod 10)])"

declare digits_of.simps [simp del]

text \<open>\<open>str(i)\<close> for an \<open>int\<close>.\<close>

definition str_int :: "int \<Rightarrow> string" where
  "str_int i = (if i < 0 then CHR ''-'' # digits_of (nat (- i)) else digits_of (nat i))"

text \<open>
  \<open>str(x)\<close> for a \<open>float\<close>. A float with an integral value below \<open>10 ^ 16\<close> in
  magnitude prints as that integer followed by \<open>.0\<close>. Every other finite float prints
  as the shortest decimal that reads back as the same float; that text is computed by
  the interpreter, not by this program, and is the parameter \<open>fr\<close>.
\<close>

fun str_float :: "(rat \<Rightarrow> string) \<Rightarrow> pyfloat \<Rightarrow> string" where
  "str_float fr (Finite r) =
     (if of_int \<lfloor>r\<rfloor> = r \<and> \<bar>r\<bar> < 10 ^ 16 then str_int \<lfloor>r\<rfloor> @ ''.0'' else fr r)"
| "str_float fr NegZero = ''-0.0''"
| "str_float fr PosInf = ''inf''"
| "str_float fr NegInf = ''-inf''"
| "str_float fr NaN = ''nan''"

fun py_str :: "(rat \<Rightarrow> string) \<Rightarrow> pynum \<Rightarrow> string" where
  "py_str fr (PyInt i) = str_int i"
| "py_str fr (PyFloat x) = str_float fr x"

subsection \<open>The model, its doors and the report records\<close>

text \<open>
  A door element: \<open>getattr(door, "GlobalId", None)\<close>, \<open>getattr(door, "Name", None)\<close> and
  \<open>getattr(door, "OverallWidth", None)\<close> give \<open>None\<close> both for a missing attribute and
  for one set to \<open>None\<close>; \<open>door.id()\<close> is the element's numeric identity.
\<close>

record door =
  GlobalId :: "string option"
  Name :: "string option"
  OverallWidth :: "pynum option"
  door_id :: int

text \<open>
  The model object either has \<open>by_type\<close>, a lookup from a type name to the list of
  elements of that type, or has no such attribute.
\<close>

datatype model = IfcModel "string \<Rightarrow> door list" | NoByType

text \<open>The dictionary appended to \<open>results\<close>, one field per key.\<close>

record check_result =
  element_id :: "string option"
  element_type :: string
  element_name :: string
  element_name_long :: "string option"
  check_status :: string
  actual_value :: string
  required_value :: string
  comment :: "string option"
  log_field :: "string option"

subsection \<open>The check\<close>

text \<open>
  Lines 25 to 41: status, comment and the two counter increments (compliant,
  non-compliant) of one door.
\<close>

definition door_verdict ::
  "(rat \<Rightarrow> string) \<Rightarrow> pynum \<Rightarrow> door \<Rightarrow> string \<times> string option \<times> int \<times> int" where
  "door_verdict fr min_width_mm d =
     (case OverallWidth d of
        None \<Rightarrow>
          (''fail'', Some ''Door width is not specified (OverallWidth is missing)'', 0, 1)
      | Some width \<Rightarrow>
          if py_ge width min_width_mm then (''pass'', None, 1, 0)
          else (''fail'',
                Some (''Door width '' @ py_str fr width
                      @ '' mm is below required minimum '' @ py_str fr min_width_mm
                      @ '' mm''),
                0, 1))"

text \<open>
  Line 47: \<open>getattr(door, "Name", None) or f"Door #{door.id()}"\<close>; \<open>None\<close> and the
  empty string are the falsy names.
\<close>

definition door_name :: "door \<Rightarrow> string" where
  "door_name d =
     (case Name d of
        None \<Rightarrow> ''Door #'' @ str_int (door_id d)
      | Some n \<Rightarrow> if n = [] then ''Door #'' @ str_int (door_id d) else n)"

text \<open>Lines 43 to 55: the record of one door.\<close>

definition door_record :: "(rat \<Rightarrow> string) \<Rightarrow> pynum \<Rightarrow> door \<Rightarrow> check_result" where
  "door_record fr min_width_mm d =
     (case door_verdict fr min_width_mm d of (status, cmt, dc, dn) \<Rightarrow>
        \<lparr> element_id = GlobalId d,
          element_type = ''IfcDoor'',
          element_name = door_name d,
          element_name_long = None,
          check_status = status,
          actual_value =
            (case OverallWidth d of None \<Rightarrow> ''Unknown width'' | Some width \<Rightarrow> py_str fr width),
          required_value = ''>= '' @ py_str fr min_width_mm @ '' mm'',
          comment = cmt,
          log_field = None \<rparr>)"

text \<open>The variables the loop updates.\<close>

record loop_state =
  results :: "check_result list"
  compliant_count :: int
  non_compliant_count :: int

text \<open>One iteration of \<open>for door in doors\<close>.\<close>

definition door_step ::
  "(rat \<Rightarrow> string) \<Rightarrow> pynum \<Rightarrow> loop_state \<Rightarrow> door \<Rightarrow> loop_state" where
  "door_step fr min_width_mm st d =
     (case door_verdict fr min_width_mm d of (status, cmt, dc, dn) \<Rightarrow>
        \<lparr> results = results st @ [door_record fr min_width_mm d],
          compliant_count = compliant_count st + dc,
          non_compliant_count = non_compliant_count st + dn \<rparr>)"

text \<open>Lines 59 to 70: status and comment of the summary.\<close>

definition summary_verdict ::
  "(rat \<Rightarrow> string) \<Rightarrow> pynum \<Rightarrow> int \<Rightarrow> int \<Rightarrow> string \<times> string" where
  "summary_verdict fr min_width_mm total_doors non_compliant =
     (if total_doors = 0 then (''warning'', ''Model contains no IfcDoor elements'')
      else if non_compliant = 0 then
        (''pass'', ''All '' @ str_int total_doors @ '' doors meet or exceed the minimum width'')
      else
        (''fail'',
         str_int non_compliant @ '' of '' @ str_int total_doors @ '' doors are below the ''
         @ ''required minimum width of '' @ py_str fr min_width_mm
         @ '' mm or have no width set''))"

text \<open>Lines 72 to 84: the summary record.\<close>

definition summary_record ::
  "(rat \<Rightarrow> string) \<Rightarrow> pynum \<Rightarrow> int \<Rightarrow> int \<Rightarrow> int \<Rightarrow> check_result" where
  "summary_record fr min_width_mm total_doors compliant non_compliant =
     (case summary_verdict fr min_width_mm total_doors non_compliant of
        (summary_status, summary_comment) \<Rightarrow>
        \<lparr> element_id = None,
          element_type = ''Summary'',
          element_name = ''Door Accessibility Check'',
          element_name_long = None,
          check_status = summary_status,
          actual_value =
            str_int compliant @ '' / '' @ str_int total_doors @ '' doors compliant'',
          required_value = ''All doors width >= '' @ py_str fr min_width_mm @ '' mm'',
          comment = Some summary_comment,
          log_field = None \<rparr>)"

text \<open>Line 19: the doors of the model, none when the model has no \<open>by_type\<close>.\<close>

definition model_doors :: "model \<Rightarrow> door list" where
  "model_doors m = (case m of IfcModel by_type \<Rightarrow> by_type ''IfcDoor'' | NoByType \<Rightarrow> [])"

text \<open>
  \<open>check_door_accessibility(model, min_width_mm, **kwargs)\<close>. The keyword arguments are
  a dictionary from names to values of any kind.
\<close>

definition check_door_accessibility ::
  "(rat \<Rightarrow> string) \<Rightarrow> model \<Rightarrow> pynum \<Rightarrow> (string \<rightharpoonup> 'v) \<Rightarrow> check_result list" where
  "check_door_accessibility fr m min_width_mm kwargs =
     (let doors = model_doors m;
          st = foldl (door_step fr min_width_mm)
                 \<lparr> results = [], compliant_count = 0, non_compliant_count = 0 \<rparr> doors;
          total_doors = int (length doors)
      in results st
         @ [summary_record fr min_width_mm total_doors
              (compliant_count st) (non_compliant_count st)])"

text \<open>The default of \<open>min_width_mm\<close> is the float \<open>900.0\<close>.\<close>

definition default_min_width_mm :: pynum where
  "default_min_width_mm = PyFloat (Finite 900)"

subsection \<open>Notions of the specification\<close>

text \<open>
  A door is compliant when its width is present and at least the threshold; the
  counts of the specification are the numbers of compliant and of non-compliant
  doors of the model.
\<close>

definition width_ok :: "pynum \<Rightarrow> door \<Rightarrow> bool" where
  "width_ok min_width_mm d =
     (case OverallWidth d of None \<Rightarrow> False | Some w \<Rightarrow> py_ge w min_width_mm)"

definition compliant_doors :: "pynum \<Rightarrow> door list \<Rightarrow> nat" where
  "compliant_doors min_width_mm ds = length (filter (width_ok min_width_mm) ds)"

definition non_compliant_doors :: "pynum \<Rightarrow> door list \<Rightarrow> nat" where
  "non_compliant_doors min_width_mm ds =
     length (filter (\<lambda>d. \<not> width_ok min_width_mm d) ds)"

text \<open>
  \<open>x < y\<close> on floats and on numbers, as Python decides it: false when either side is
  not-a-number, exact between an \<open>int\<close> and a \<open>float\<close>.
\<close>

fun float_lt :: "pyfloat \<Rightarrow> pyfloat \<Rightarrow> bool" where
  "float_lt NaN y = False"
| "float_lt x NaN = False"
| "float_lt PosInf y = False"
| "float_lt x NegInf = False"
| "float_lt NegInf y = True"
| "float_lt x PosInf = True"
| "float_lt x y = (float_val x < float_val y)"

fun py_lt :: "pynum \<Rightarrow> pynum \<Rightarrow> bool" where
  "py_lt (PyInt a) (PyInt b) = (a < b)"
| "py_lt (PyInt a) (PyFloat y) = float_lt (Finite (of_int a)) y"
| "py_lt (PyFloat x) (PyInt b) = float_lt x (Finite (of_int b))"
| "py_lt (PyFloat x) (PyFloat y) = float_lt x y"

subsection \<open>Example inputs\<close>

text \<open>
  Three doors: a named one of width 1000, an unnamed one of width 800.5 and one with
  an empty name and no width; and a model that holds them.
\<close>

definition door_a :: door where
  "door_a = \<lparr> GlobalId = Some ''2O2Fr$t4X7Zf8NOew3FLOH'', Name = Some ''Main entrance'',
              OverallWidth = Some (PyInt 1000), door_id = 41 \<rparr>"

definition door_b :: door where
  "door_b = \<lparr> GlobalId = Some ''1hOSvn6df7F8_7GcBWlRGQ'', Name = None,
              OverallWidth = Some (PyFloat (Finite (1601 / 2))), door_id = 57 \<rparr>"

definition door_c :: door where
  "door_c = \<lparr> GlobalId = None, Name = Some [],
              OverallWidth = None, door_id = 63 \<rparr>"

definition example_model :: model where
  "example_model =
     IfcModel (\<lambda>t. if t = ''IfcDoor'' then [door_a, door_b, door_c] else [])"

text \<open>A float printer for the examples; it prints \<open>800.5\<close> and nothing else.\<close>

definition example_repr :: "rat \<Rightarrow> string" where
  "example_repr r = (if r = 1601 / 2 then ''800.5'' else [])"

section \<open>Properties\<close>

subsection \<open>The loop and the shape of the output\<close>

lemma door_verdict_ok:
  "door_verdict fr m d =
     (if width_ok m d then (''pass'', None, 1, 0)
      else (''fail'',
            (case OverallWidth d of
               None \<Rightarrow> Some ''Door width is not specified (OverallWidth is missing)''
             | Some w \<Rightarrow> Some (''Door width '' @ py_str fr w
                   @ '' mm is below required minimum '' @ py_str fr m @ '' mm'')),
            0, 1))"
  by (simp add: door_verdict_def width_ok_def split: option.splits)

lemma foldl_door_step_results:
  "results (foldl (door_step fr m) st ds) = results st @ map (door_record fr m) ds"
  by (induction ds arbitrary: st) (simp_all add: door_step_def split: prod.splits)

lemma foldl_door_step_compliant:
  "compliant_count (foldl (door_step fr m) st ds)
     = compliant_count st + int (compliant_doors m ds)"
  by (induction ds arbitrary: st)
     (simp_all add: door_step_def door_verdict_ok compliant_doors_def)

lemma foldl_door_step_non_compliant:
  "non_compliant_count (foldl (door_step fr m) st ds)
     = non_compliant_count st + int (non_compliant_doors m ds)"
  by (induction ds arbitrary: st)
     (simp_all add: door_step_def door_verdict_ok non_compliant_doors_def)

lemma check_door_accessibility_eq:
  "check_door_accessibility fr m min_w kw =
     map (door_record fr min_w) (model_doors m)
     @ [summary_record fr min_w (int (length (model_doors m)))
          (int (compliant_doors min_w (model_doors m)))
          (int (non_compliant_doors min_w (model_doors m)))]"
  by (simp add: check_door_accessibility_def Let_def foldl_door_step_results
      foldl_door_step_compliant foldl_door_step_non_compliant)

lemma check_door_accessibility_nth:
  "i < length (model_doors m) \<Longrightarrow>
     check_door_accessibility fr m min_w kw ! i = door_record fr min_w (model_doors m ! i)"
  by (simp add: check_door_accessibility_eq nth_append)

lemma check_door_accessibility_last:
  "last (check_door_accessibility fr m min_w kw) =
     summary_record fr min_w (int (length (model_doors m)))
          (int (compliant_doors min_w (model_doors m)))
          (int (non_compliant_doors min_w (model_doors m)))"
  by (simp add: check_door_accessibility_eq)

lemma door_record_status:
  "check_status (door_record fr m d) = (if width_ok m d then ''pass'' else ''fail'')"
  by (simp add: door_record_def door_verdict_ok)

lemma door_record_comment:
  "comment (door_record fr m d) =
     (if width_ok m d then None
      else (case OverallWidth d of
               None \<Rightarrow> Some ''Door width is not specified (OverallWidth is missing)''
             | Some w \<Rightarrow> Some (''Door width '' @ py_str fr w
                   @ '' mm is below required minimum '' @ py_str fr m @ '' mm'')))"
  by (simp add: door_record_def door_verdict_ok)

lemma float_lt_not_ge: "float_lt x y \<Longrightarrow> \<not> float_ge x y"
  by (cases x; cases y) simp_all

lemma py_lt_not_ge: "py_lt x y \<Longrightarrow> \<not> py_ge x y"
  by (cases x; cases y) (simp_all add: float_lt_not_ge)

lemma non_compliant_le: "non_compliant_doors m ds \<le> length ds"
  by (simp add: non_compliant_doors_def)

lemma model_doors_example: "model_doors example_model = [door_a, door_b, door_c]"
  by (simp add: model_doors_def example_model_def)

lemma width_ok_examples:
  "width_ok (PyFloat (Finite 900)) door_a"
  "\<not> width_ok (PyFloat (Finite 900)) door_b"
  "\<not> width_ok (PyFloat (Finite 900)) door_c"
  by (simp_all add: width_ok_def door_a_def door_b_def door_c_def)

lemma door_record_type: "element_type (door_record fr m d) = ''IfcDoor''"
  by (simp add: door_record_def split: prod.splits)

lemma door_record_name: "element_name (door_record fr m d) = door_name d"
  by (simp add: door_record_def split: prod.splits)

lemma door_record_actual:
  "actual_value (door_record fr m d) =
     (case OverallWidth d of None \<Rightarrow> ''Unknown width'' | Some w \<Rightarrow> py_str fr w)"
  by (simp add: door_record_def split: prod.splits)

lemma summary_record_type: "element_type (summary_record fr m t c n) = ''Summary''"
  by (simp add: summary_record_def split: prod.splits)

lemma summary_record_status:
  "check_status (summary_record fr m t c n) =
     (if t = 0 then ''warning'' else if n = 0 then ''pass'' else ''fail'')"
  by (simp add: summary_record_def summary_verdict_def)

lemma summary_record_comment:
  "comment (summary_record fr m t c n) = Some (snd (summary_verdict fr m t n))"
  by (simp add: summary_record_def split: prod.splits)

lemma str_int_examples:
  "str_int 0 = ''0''" "str_int 1 = ''1''" "str_int 2 = ''2''" "str_int 3 = ''3''"
  "str_int 57 = ''57''" "str_int 63 = ''63''" "str_int 800 = ''800''" "str_int 900 = ''900''"
  by (simp_all add: str_int_def digits_of.simps digit_char_def)

lemma model_doors_simps:
  "model_doors (IfcModel by_type) = by_type ''IfcDoor''"
  "model_doors NoByType = []"
  by (simp_all add: model_doors_def)

lemma str_float_900: "str_float fr (Finite 900) = ''900.0''"
  by (simp add: str_int_def digits_of.simps digit_char_def)

subsection \<open>The claims of the specification\<close>

text \<open>
  Claim C1. For every door the model's lookup returns, the status of its record in
  the output is \<open>pass\<close> exactly when the door's \<open>OverallWidth\<close> is present and at
  least \<open>min_width_mm\<close>; any other door has status \<open>fail\<close>; and a record with status
  \<open>pass\<close> has no comment.
\<close>

theorem per_door_status_pass_iff:
  assumes "i < length (model_doors m)"
  shows "(check_status (check_door_accessibility fr m min_w kw ! i) = ''pass'')
           = (\<exists>w. OverallWidth (model_doors m ! i) = Some w \<and> py_ge w min_w)
         \<and> (check_status (check_door_accessibility fr m min_w kw ! i) \<noteq> ''pass''
              \<longrightarrow> check_status (check_door_accessibility fr m min_w kw ! i) = ''fail'')
         \<and> (check_status (check_door_accessibility fr m min_w kw ! i) = ''pass''
              \<longrightarrow> comment (check_door_accessibility fr m min_w kw ! i) = None)"
proof -
  let ?d = "model_doors m ! i"
  have ok: "width_ok min_w ?d = (\<exists>w. OverallWidth ?d = Some w \<and> py_ge w min_w)"
    by (cases "OverallWidth ?d") (simp_all add: width_ok_def)
  show ?thesis
    using assms ok
    by (simp add: check_door_accessibility_nth door_record_status door_record_comment)
qed

theorem per_door_status_pass_iff_witness:
  "(check_status (check_door_accessibility example_repr example_model (PyFloat (Finite 900))
       (Map.empty :: string \<rightharpoonup> unit) ! 0) = ''pass'')
   \<and> comment (check_door_accessibility example_repr example_model (PyFloat (Finite 900))
       (Map.empty :: string \<rightharpoonup> unit) ! 0) = None
   \<and> check_status (check_door_accessibility example_repr example_model (PyFloat (Finite 900))
       (Map.empty :: string \<rightharpoonup> unit) ! 1) = ''fail''"
proof -
  have h0: "0 < length (model_doors example_model)"
    and h1: "1 < length (model_doors example_model)"
    by (simp_all add: model_doors_example)
  show ?thesis
    using per_door_status_pass_iff [OF h0, of example_repr "PyFloat (Finite 900)" "Map.empty :: string \<rightharpoonup> unit"]
      per_door_status_pass_iff [OF h1, of example_repr "PyFloat (Finite 900)" "Map.empty :: string \<rightharpoonup> unit"]
    by (simp add: model_doors_example door_a_def door_b_def)
qed

text \<open>
  Claim C2. The status of the summary, the last record of the output, is \<open>fail\<close>
  exactly when some door is non-compliant, \<open>pass\<close> exactly when there is a door and
  none is non-compliant, and \<open>warning\<close> exactly when there is no door. In the
  \<open>pass\<close> case the comment is "All {total} doors meet or exceed the minimum width",
  in the \<open>warning\<close> case "Model contains no IfcDoor elements".
\<close>

theorem summary_status_by_counts:
  "(check_status (last (check_door_accessibility fr m min_w kw)) = ''fail'')
      = (0 < non_compliant_doors min_w (model_doors m))
   \<and> (check_status (last (check_door_accessibility fr m min_w kw)) = ''pass'')
      = (0 < length (model_doors m) \<and> non_compliant_doors min_w (model_doors m) = 0)
   \<and> (check_status (last (check_door_accessibility fr m min_w kw)) = ''warning'')
      = (length (model_doors m) = 0)
   \<and> (0 < length (model_doors m) \<and> non_compliant_doors min_w (model_doors m) = 0
        \<longrightarrow> comment (last (check_door_accessibility fr m min_w kw))
            = Some (''All '' @ str_int (int (length (model_doors m)))
                    @ '' doors meet or exceed the minimum width''))
   \<and> (length (model_doors m) = 0
        \<longrightarrow> comment (last (check_door_accessibility fr m min_w kw))
            = Some ''Model contains no IfcDoor elements'')"
proof -
  let ?ds = "model_doors m"
  have le: "non_compliant_doors min_w ?ds \<le> length ?ds"
    by (rule non_compliant_le)
  show ?thesis
  proof (cases "?ds = []")
    case True
    then show ?thesis
      by (simp add: check_door_accessibility_last summary_record_status
          summary_record_comment summary_verdict_def non_compliant_doors_def)
  next
    case False
    then show ?thesis
      by (simp add: check_door_accessibility_last summary_record_status
          summary_record_comment summary_verdict_def)
  qed
qed

theorem summary_status_by_counts_witness:
  "check_status (last (check_door_accessibility example_repr example_model
       (PyFloat (Finite 900)) (Map.empty :: string \<rightharpoonup> unit))) = ''fail''
   \<and> check_status (last (check_door_accessibility example_repr (IfcModel (\<lambda>t. [door_a]))
       (PyFloat (Finite 900)) (Map.empty :: string \<rightharpoonup> unit))) = ''pass''
   \<and> comment (last (check_door_accessibility example_repr (IfcModel (\<lambda>t. [door_a]))
       (PyFloat (Finite 900)) (Map.empty :: string \<rightharpoonup> unit)))
       = Some ''All 1 doors meet or exceed the minimum width''
   \<and> check_status (last (check_door_accessibility example_repr NoByType
       (PyFloat (Finite 900)) (Map.empty :: string \<rightharpoonup> unit))) = ''warning''
   \<and> comment (last (check_door_accessibility example_repr NoByType
       (PyFloat (Finite 900)) (Map.empty :: string \<rightharpoonup> unit)))
       = Some ''Model contains no IfcDoor elements''"
  using summary_status_by_counts [of example_repr example_model "PyFloat (Finite 900)"
      "Map.empty :: string \<rightharpoonup> unit"]
    summary_status_by_counts [of example_repr "IfcModel (\<lambda>t. [door_a])" "PyFloat (Finite 900)"
      "Map.empty :: string \<rightharpoonup> unit"]
    summary_status_by_counts [of example_repr NoByType "PyFloat (Finite 900)"
      "Map.empty :: string \<rightharpoonup> unit"]
  by (simp add: model_doors_example non_compliant_doors_def width_ok_examples
      model_doors_simps str_int_examples)

text \<open>
  Claim C3. For a model with \<open>by_type\<close> the output has as many records as
  \<open>by_type("IfcDoor")\<close> returned doors, and one more; for a model without \<open>by_type\<close>
  it has one record. In both cases the last record has \<open>element_type = "Summary"\<close>,
  and that record is the only one of the output with this element type.
\<close>

theorem one_summary_record_last:
  "length (check_door_accessibility fr (IfcModel by_type) min_w kw)
     = length (by_type ''IfcDoor'') + 1
   \<and> length (check_door_accessibility fr NoByType min_w kw) = 1
   \<and> element_type (last (check_door_accessibility fr m min_w kw)) = ''Summary''
   \<and> filter (\<lambda>r. element_type r = ''Summary'') (check_door_accessibility fr m min_w kw)
       = [last (check_door_accessibility fr m min_w kw)]"
  by (simp add: check_door_accessibility_eq model_doors_simps summary_record_type
      door_record_type filter_map comp_def)

theorem one_summary_record_last_witness:
  "length (check_door_accessibility example_repr
       (IfcModel (\<lambda>t. if t = ''IfcDoor'' then [door_a, door_b, door_c] else []))
       (PyFloat (Finite 900)) (Map.empty :: string \<rightharpoonup> unit)) = 4
   \<and> length (check_door_accessibility example_repr
       (IfcModel (\<lambda>t. if t = ''IfcDoor'' then [] else [door_a]))
       (PyFloat (Finite 900)) (Map.empty :: string \<rightharpoonup> unit)) = 1
   \<and> length (check_door_accessibility example_repr NoByType
       (PyFloat (Finite 900)) (Map.empty :: string \<rightharpoonup> unit)) = 1
   \<and> map element_type (check_door_accessibility example_repr
       (IfcModel (\<lambda>t. if t = ''IfcDoor'' then [door_a, door_b, door_c] else []))
       (PyFloat (Finite 900)) (Map.empty :: string \<rightharpoonup> unit))
       = [''IfcDoor'', ''IfcDoor'', ''IfcDoor'', ''Summary'']"
  using one_summary_record_last [of example_repr
      "\<lambda>t. if t = ''IfcDoor'' then [door_a, door_b, door_c] else []"
      "PyFloat (Finite 900)" "Map.empty :: string \<rightharpoonup> unit"]
    one_summary_record_last [of example_repr
      "\<lambda>t. if t = ''IfcDoor'' then [] else [door_a]"
      "PyFloat (Finite 900)" "Map.empty :: string \<rightharpoonup> unit"]
  by (simp add: check_door_accessibility_eq model_doors_simps door_record_type
      summary_record_type)

text \<open>
  Claim C4. A door without \<open>OverallWidth\<close> gets status \<open>fail\<close>, the comment
  "Door width is not specified (OverallWidth is missing)" and the actual value
  "Unknown width".
\<close>

theorem missing_width_record:
  assumes "i < length (model_doors m)"
    and "OverallWidth (model_doors m ! i) = None"
  shows "check_status (check_door_accessibility fr m min_w kw ! i) = ''fail''
         \<and> comment (check_door_accessibility fr m min_w kw ! i)
             = Some ''Door width is not specified (OverallWidth is missing)''
         \<and> actual_value (check_door_accessibility fr m min_w kw ! i) = ''Unknown width''"
  using assms
  by (simp add: check_door_accessibility_nth door_record_status door_record_comment
      door_record_actual width_ok_def)

theorem missing_width_record_witness:
  "check_status (check_door_accessibility example_repr example_model (PyFloat (Finite 900))
       (Map.empty :: string \<rightharpoonup> unit) ! 2) = ''fail''
   \<and> comment (check_door_accessibility example_repr example_model (PyFloat (Finite 900))
       (Map.empty :: string \<rightharpoonup> unit) ! 2)
       = Some ''Door width is not specified (OverallWidth is missing)''
   \<and> actual_value (check_door_accessibility example_repr example_model (PyFloat (Finite 900))
       (Map.empty :: string \<rightharpoonup> unit) ! 2) = ''Unknown width''"
proof -
  have h: "2 < length (model_doors example_model)"
    and w: "OverallWidth (model_doors example_model ! 2) = None"
    by (simp_all add: model_doors_example door_c_def)
  show ?thesis
    using missing_width_record [OF h w, of example_repr "PyFloat (Finite 900)"
        "Map.empty :: string \<rightharpoonup> unit"]
    by simp
qed

text \<open>
  Claim C5. A door whose \<open>OverallWidth\<close> is present and strictly below
  \<open>min_width_mm\<close> gets status \<open>fail\<close> and the comment
  "Door width {width} mm is below required minimum {min_width_mm} mm", with the printed
  width and the printed threshold in it.
\<close>

theorem narrow_width_record:
  assumes "i < length (model_doors m)"
    and "OverallWidth (model_doors m ! i) = Some w"
    and "py_lt w min_w"
  shows "check_status (check_door_accessibility fr m min_w kw ! i) = ''fail''
         \<and> comment (check_door_accessibility fr m min_w kw ! i)
             = Some (''Door width '' @ py_str fr w @ '' mm is below required minimum ''
                     @ py_str fr min_w @ '' mm'')"
  using assms py_lt_not_ge [of w min_w]
  by (simp add: check_door_accessibility_nth door_record_status door_record_comment
      width_ok_def)

theorem narrow_width_record_witness:
  "check_status (check_door_accessibility example_repr example_model (PyFloat (Finite 900))
       (Map.empty :: string \<rightharpoonup> unit) ! 1) = ''fail''
   \<and> comment (check_door_accessibility example_repr example_model (PyFloat (Finite 900))
       (Map.empty :: string \<rightharpoonup> unit) ! 1)
       = Some ''Door width 800.5 mm is below required minimum 900.0 mm''"
proof -
  have h: "1 < length (model_doors example_model)"
    and w: "OverallWidth (model_doors example_model ! 1) = Some (PyFloat (Finite (1601 / 2)))"
    and lt: "py_lt (PyFloat (Finite (1601 / 2))) (PyFloat (Finite 900))"
    by (simp_all add: model_doors_example door_b_def)
  have fl: "\<lfloor>1601 / 2 :: rat\<rfloor> = 800"
    by (simp add: floor_eq_iff)
  show ?thesis
    using narrow_width_record [OF h w lt, of example_repr "Map.empty :: string \<rightharpoonup> unit"]
    by (simp add: str_int_examples example_repr_def fl)
qed

text \<open>
  Claim C6. For a model object without \<open>by_type\<close> the check returns one record and
  nothing else: the summary, with status \<open>warning\<close>. The check has no failing branch
  on that path: the value below is its whole result.
\<close>

theorem no_by_type_gives_warning_summary:
  "check_door_accessibility fr NoByType min_w kw =
     [\<lparr> element_id = None,
        element_type = ''Summary'',
        element_name = ''Door Accessibility Check'',
        element_name_long = None,
        check_status = ''warning'',
        actual_value = ''0 / 0 doors compliant'',
        required_value = ''All doors width >= '' @ py_str fr min_w @ '' mm'',
        comment = Some ''Model contains no IfcDoor elements'',
        log_field = None \<rparr>]"
  by (simp add: check_door_accessibility_eq model_doors_simps compliant_doors_def
      non_compliant_doors_def summary_record_def summary_verdict_def str_int_examples)

text \<open>
  Claim C7. The \<open>element_name\<close> of a door's record is the door's \<open>Name\<close> when that
  is present and not empty, and otherwise "Door #" followed by the printed \<open>door.id()\<close>.
\<close>

theorem element_name_or_fallback:
  assumes "i < length (model_doors m)"
  shows "(\<forall>n. Name (model_doors m ! i) = Some n \<and> n \<noteq> []
            \<longrightarrow> element_name (check_door_accessibility fr m min_w kw ! i) = n)
         \<and> (Name (model_doors m ! i) = None \<or> Name (model_doors m ! i) = Some []
            \<longrightarrow> element_name (check_door_accessibility fr m min_w kw ! i)
                = ''Door #'' @ str_int (door_id (model_doors m ! i)))"
  using assms
  by (auto simp add: check_door_accessibility_nth door_record_name door_name_def)

theorem element_name_or_fallback_witness:
  "element_name (check_door_accessibility example_repr example_model (PyFloat (Finite 900))
       (Map.empty :: string \<rightharpoonup> unit) ! 0) = ''Main entrance''
   \<and> element_name (check_door_accessibility example_repr example_model (PyFloat (Finite 900))
       (Map.empty :: string \<rightharpoonup> unit) ! 1) = ''Door #57''
   \<and> element_name (check_door_accessibility example_repr example_model (PyFloat (Finite 900))
       (Map.empty :: string \<rightharpoonup> unit) ! 2) = ''Door #63''"
proof -
  have h0: "0 < length (model_doors example_model)"
    and h1: "1 < length (model_doors example_model)"
    and h2: "2 < length (model_doors example_model)"
    by (simp_all add: model_doors_example)
  show ?thesis
    using element_name_or_fallback [OF h0, of example_repr "PyFloat (Finite 900)"
        "Map.empty :: string \<rightharpoonup> unit"]
      element_name_or_fallback [OF h1, of example_repr "PyFloat (Finite 900)"
        "Map.empty :: string \<rightharpoonup> unit"]
      element_name_or_fallback [OF h2, of example_repr "PyFloat (Finite 900)"
        "Map.empty :: string \<rightharpoonup> unit"]
    by (simp add: model_doors_example door_a_def door_b_def door_c_def str_int_examples)
qed

text \<open>
  Claim C8. Three doors of widths 1000, 800 and no width, whatever their other
  attributes, checked against the threshold \<open>900.0\<close> (the float, which is also the
  default): the statuses of the output are pass, fail, fail for the doors and fail for
  the summary, whose comment is "2 of 3 doors are below the required minimum width of
  900.0 mm or have no width set", whose actual value is "1 / 3 doors compliant" and
  whose required value is "All doors width >= 900.0 mm".
\<close>

theorem three_doors_example:
  "map check_status
     (check_door_accessibility fr
        (IfcModel (by_type(''IfcDoor'' :=
           [d1\<lparr>OverallWidth := Some (PyInt 1000)\<rparr>,
            d2\<lparr>OverallWidth := Some (PyInt 800)\<rparr>,
            d3\<lparr>OverallWidth := None\<rparr>])))
        (PyFloat (Finite 900)) kw)
     = [''pass'', ''fail'', ''fail'', ''fail'']
   \<and> comment (last
     (check_door_accessibility fr
        (IfcModel (by_type(''IfcDoor'' :=
           [d1\<lparr>OverallWidth := Some (PyInt 1000)\<rparr>,
            d2\<lparr>OverallWidth := Some (PyInt 800)\<rparr>,
            d3\<lparr>OverallWidth := None\<rparr>])))
        (PyFloat (Finite 900)) kw))
     = Some (''2 of 3 doors are below the required minimum width of 900.0 mm ''
             @ ''or have no width set'')
   \<and> actual_value (last
     (check_door_accessibility fr
        (IfcModel (by_type(''IfcDoor'' :=
           [d1\<lparr>OverallWidth := Some (PyInt 1000)\<rparr>,
            d2\<lparr>OverallWidth := Some (PyInt 800)\<rparr>,
            d3\<lparr>OverallWidth := None\<rparr>])))
        (PyFloat (Finite 900)) kw))
     = ''1 / 3 doors compliant''
   \<and> required_value (last
     (check_door_accessibility fr
        (IfcModel (by_type(''IfcDoor'' :=
           [d1\<lparr>OverallWidth := Some (PyInt 1000)\<rparr>,
            d2\<lparr>OverallWidth := Some (PyInt 800)\<rparr>,
            d3\<lparr>OverallWidth := None\<rparr>])))
        (PyFloat (Finite 900)) kw))
     = ''All doors width >= 900.0 mm''"
  by (simp add: check_door_accessibility_eq model_doors_simps door_record_status width_ok_def
      compliant_doors_def non_compliant_doors_def summary_record_def summary_verdict_def
      str_int_examples str_float_900)

text \<open>
  Claim C9. Two runs on the same model and threshold with any two dictionaries of
  extra keyword arguments, of any value types, return the same list of records.
\<close>

theorem kwargs_ignored:
  "check_door_accessibility fr m min_w (kw1 :: string \<rightharpoonup> 'a)
     = check_door_accessibility fr m min_w (kw2 :: string \<rightharpoonup> 'b)"
  by (simp add: check_door_accessibility_def)

text \<open>
  Claim C10. Without its last element, the output is the list of the doors' records
  in the order in which \<open>by_type("IfcDoor")\<close> returned the doors, one record per door,
  each with \<open>element_type = "IfcDoor"\<close>.
\<close>

theorem records_in_lookup_order:
  "butlast (check_door_accessibility fr (IfcModel by_type) min_w kw)
     = map (door_record fr min_w) (by_type ''IfcDoor'')
   \<and> map element_type (butlast (check_door_accessibility fr (IfcModel by_type) min_w kw))
     = replicate (length (by_type ''IfcDoor'')) ''IfcDoor''"
  by (simp add: check_door_accessibility_eq model_doors_simps butlast_append door_record_type
      map_replicate_const comp_def)

end
